theory Spec2Isabelle
  imports Main "HOL-Library.Char_ord"
begin

section \<open>Configuration and connection layer of sql-migrate (config.go)\<close>

text \<open>
  The file \<^verbatim>\<open>sql-migrate/config.go\<close> reads a YAML file of named environments,
  resolves one of them (\<^verbatim>\<open>GetEnvironment\<close>), optionally registers a TLS profile for
  MySQL (\<^verbatim>\<open>RegisterTlsConfig\<close>) and opens a database handle (\<^verbatim>\<open>GetConnection\<close>).
  Everything the Go code obtains from outside the file (the file system, the YAML
  decoder, the process environment, the PEM decoder, the SQL drivers) is a field of
  the record \<open>world\<close>; everything it mutates at package level is a field of the record
  \<open>state\<close>, which every function takes and returns.
\<close>

subsection \<open>Go values\<close>

text \<open>
  A Go \<^verbatim>\<open>error\<close>: a value made by \<^verbatim>\<open>errors.New\<close> or \<^verbatim>\<open>fmt.Errorf\<close> without
  \<^verbatim>\<open>%w\<close> (\<open>New\<close>, with its message), a value made by \<^verbatim>\<open>fmt.Errorf(prefix + "%w", err)\<close>
  (\<open>Wrap\<close>, the prefix and the wrapped cause), or a value handed over by a callee
  outside this file (\<open>External\<close>, with its message). \<open>Error\<close> is the method
  \<^verbatim>\<open>Error()\<close>, the message.
\<close>

datatype error = New string | Wrap string error | External string

fun Error :: "error \<Rightarrow> string" where
  "Error (New msg) = msg"
| "Error (Wrap prefix err) = prefix @ Error err"
| "Error (External msg) = msg"

text \<open>The struct \<^verbatim>\<open>Environment\<close> (config.go, lines 40 to 47).\<close>

record Environment =
  Dialect :: string
  DataSource :: string
  Dir :: string
  TableName :: string
  SchemaName :: string
  IgnoreUnknown :: bool

text \<open>
  The parsed configuration, \<^verbatim>\<open>map[string]*Environment\<close>: a key is absent (\<open>None\<close>),
  or present with a nil pointer (\<open>Some None\<close>), or present with a descriptor.
  Indexing a Go map with an absent key gives the zero value, here the nil pointer.
\<close>

type_synonym config = "string \<rightharpoonup> Environment option"

definition index :: "config \<Rightarrow> string \<Rightarrow> Environment option" where
  "index config key = (case config key of None \<Rightarrow> None | Some p \<Rightarrow> p)"

text \<open>
  The values of the static registry \<^verbatim>\<open>dialects\<close> (config.go, lines 24 to 28) are
  gorp's dialect handles; the MySQL one carries its engine and encoding.
\<close>

datatype gorp_Dialect = SqliteDialect | PostgresDialect | MySQLDialect string string

definition dialects :: "string \<rightharpoonup> gorp_Dialect" where
  "dialects =
     [''sqlite3'' \<mapsto> SqliteDialect,
      ''postgres'' \<mapsto> PostgresDialect,
      ''mysql'' \<mapsto> MySQLDialect ''InnoDB'' ''UTF8'']"

text \<open>A \<^verbatim>\<open>*sql.DB\<close> handle, and the \<^verbatim>\<open>tls.Config\<close> fields the code fills in.\<close>

datatype sql_DB = DB nat

record tls_Config =
  RootCAs :: "string list"
  ServerName :: string

subsection \<open>The world outside the file, and the package-level state\<close>

text \<open>
  \<^item> \<open>os_ReadFile\<close>: \<^verbatim>\<open>os.ReadFile\<close>, the content of a path or an error;
  \<^item> \<open>yaml_Unmarshal\<close>: \<^verbatim>\<open>yaml.Unmarshal\<close> into an empty \<^verbatim>\<open>map[string]*Environment\<close>;
  \<^item> \<open>os_environ\<close>: the process environment;
  \<^item> \<open>x509_certs\<close>: the certificates \<^verbatim>\<open>AppendCertsFromPEM\<close> finds in PEM data (it
    reports \<^verbatim>\<open>ok\<close> exactly when it appended at least one);
  \<^item> \<open>sql_Open\<close>: \<^verbatim>\<open>sql.Open\<close> for a driver name and data source; the MySQL driver
    looks named TLS profiles up in its registry, so the registry is an argument;
  \<^item> \<open>db_Ping\<close>: \<^verbatim>\<open>db.Ping\<close>, \<open>None\<close> for a nil error.
\<close>

record world =
  os_ReadFile :: "string \<Rightarrow> error + string"
  yaml_Unmarshal :: "string \<Rightarrow> error + config"
  os_environ :: "string \<rightharpoonup> string"
  x509_certs :: "string \<Rightarrow> string list"
  sql_Open :: "(string \<rightharpoonup> tls_Config) \<Rightarrow> string \<Rightarrow> string \<Rightarrow> error + sql_DB"
  db_Ping :: "sql_DB \<Rightarrow> error option"

text \<open>
  The calls to collaborators that the properties below speak about are recorded, in
  order, in the field \<open>calls\<close> of the state.
\<close>

datatype call =
    Call_SetTable string
  | Call_SetSchema string
  | Call_SetIgnoreUnknown bool
  | Call_RegisterTlsConfig string string string
  | Call_sql_Open string string
  | Call_Ping

text \<open>
  The package-level variables: the two flags of \<^verbatim>\<open>ConfigFlags\<close> (config.go, lines 30
  to 38), the migration engine's three settings, the MySQL driver's registry of TLS
  profiles, and the record of calls.
\<close>

record state =
  ConfigFile :: string
  ConfigEnvironment :: string
  migrate_TableName :: string
  migrate_SchemaName :: string
  migrate_IgnoreUnknown :: bool
  tlsConfigRegistry :: "string \<rightharpoonup> tls_Config"
  calls :: "call list"

definition record_call :: "call \<Rightarrow> state \<Rightarrow> state" where
  "record_call c st = st\<lparr>calls := calls st @ [c]\<rparr>"

text \<open>The calls made between a state and a later one.\<close>

definition new_calls :: "state \<Rightarrow> state \<Rightarrow> call list" where
  "new_calls st st' = drop (length (calls st)) (calls st')"

subsection \<open>Go's standard library: strings and os\<close>

text \<open>
  \<^verbatim>\<open>strings.HasPrefix\<close> and \<^verbatim>\<open>strings.Contains\<close>: the latter holds when the
  substring starts at some index of \<open>s\<close>.
\<close>

definition HasPrefix :: "string \<Rightarrow> string \<Rightarrow> bool" where
  "HasPrefix s prefix = (length prefix \<le> length s \<and> take (length prefix) s = prefix)"

fun Contains :: "string \<Rightarrow> string \<Rightarrow> bool" where
  "Contains [] substr = (substr = [])"
| "Contains (c # s) substr = (HasPrefix (c # s) substr \<or> Contains s substr)"

text \<open>\<^verbatim>\<open>os.Getenv\<close>: the value of the variable, the empty string when it is unset.\<close>

definition Getenv :: "world \<Rightarrow> string \<Rightarrow> string" where
  "Getenv w key = (case os_environ w key of None \<Rightarrow> [] | Some v \<Rightarrow> v)"

text \<open>
  \<^verbatim>\<open>os.ExpandEnv(s)\<close> is \<^verbatim>\<open>os.Expand(s, os.Getenv)\<close>. The functions below follow
  the standard library's \<^verbatim>\<open>os/env.go\<close>: \<^verbatim>\<open>isShellSpecialVar\<close>, \<^verbatim>\<open>isAlphaNum\<close>,
  \<^verbatim>\<open>getShellName\<close> (the name after a dollar sign and the number of bytes it takes)
  and \<^verbatim>\<open>Expand\<close>.
\<close>

definition isShellSpecialVar :: "char \<Rightarrow> bool" where
  "isShellSpecialVar c = (c \<in> set ''*#$@!?-0123456789'')"

definition isAlphaNum :: "char \<Rightarrow> bool" where
  "isAlphaNum c =
     (c = CHR ''_''
      \<or> (CHR ''0'' \<le> c \<and> c \<le> CHR ''9'')
      \<or> (CHR ''a'' \<le> c \<and> c \<le> CHR ''z'')
      \<or> (CHR ''A'' \<le> c \<and> c \<le> CHR ''Z''))"

text \<open>
  \<^verbatim>\<open>getShellName\<close> is only called on a non-empty string (\<^verbatim>\<open>Expand\<close> checks
  \<^verbatim>\<open>j+1 < len(s)\<close> first). In the brace case, \<open>i\<close> is the index of the first closing
  brace at or after index 1, or the length of the string when there is none.
\<close>

fun getShellName :: "string \<Rightarrow> string \<times> nat" where
  "getShellName (c # cs) =
     (if c = CHR ''{'' then
        (if 2 < length (c # cs) \<and> isShellSpecialVar ((c # cs) ! 1) \<and> (c # cs) ! 2 = CHR ''}''
         then ([(c # cs) ! 1], 3)
         else
           (let i = Suc (length (takeWhile (\<lambda>x. x \<noteq> CHR ''}'') cs)) in
            if i < length (c # cs)
            then (if i = 1 then ([], 2) else (take (i - 1) cs, i + 1))
            else ([], 1)))
      else if isShellSpecialVar c then ([c], 1)
      else (let i = length (takeWhile isAlphaNum (c # cs)) in (take i (c # cs), i)))"

text \<open>
  \<^verbatim>\<open>Expand\<close>: the loop over \<open>j\<close> copies the bytes up to a dollar sign that is not the last
  byte, then what the name after it stands for (nothing for bad syntax, the dollar sign
  itself when no name follows, the mapping's value otherwise), and goes on after the
  name.
\<close>

fun Expand :: "string \<Rightarrow> (string \<Rightarrow> string) \<Rightarrow> string" where
  "Expand [] mapping = []"
| "Expand (c # s) mapping =
     (if c = CHR ''$'' \<and> s \<noteq> [] then
        (let (name, w) = getShellName s in
           (if name = [] \<and> 0 < w then []
            else if name = [] then [c]
            else mapping name) @ Expand (drop w s) mapping)
      else c # Expand s mapping)"

definition ExpandEnv :: "world \<Rightarrow> string \<Rightarrow> string" where
  "ExpandEnv w s = Expand s (Getenv w)"

subsection \<open>The migration engine's setters and the driver's registry\<close>

text \<open>
  Modelled from the spec: the setters \<^verbatim>\<open>migrate.SetTable\<close>, \<^verbatim>\<open>migrate.SetSchema\<close> and
  \<^verbatim>\<open>migrate.SetIgnoreUnknown\<close> of the migration engine's package, which is not part of
  the source file. Each one stores its argument in the engine's global setting of that
  name.
\<close>

definition SetTable :: "string \<Rightarrow> state \<Rightarrow> state" where
  "SetTable name st = record_call (Call_SetTable name) (st\<lparr>migrate_TableName := name\<rparr>)"

definition SetSchema :: "string \<Rightarrow> state \<Rightarrow> state" where
  "SetSchema name st = record_call (Call_SetSchema name) (st\<lparr>migrate_SchemaName := name\<rparr>)"

definition SetIgnoreUnknown :: "bool \<Rightarrow> state \<Rightarrow> state" where
  "SetIgnoreUnknown v st =
     record_call (Call_SetIgnoreUnknown v) (st\<lparr>migrate_IgnoreUnknown := v\<rparr>)"

text \<open>
  \<^verbatim>\<open>mysql.RegisterTLSConfig\<close> of the MySQL driver: the profile is stored under the key,
  replacing an earlier one.
\<close>

definition mysql_RegisterTLSConfig :: "string \<Rightarrow> tls_Config \<Rightarrow> state \<Rightarrow> state" where
  "mysql_RegisterTLSConfig key cfg st =
     st\<lparr>tlsConfigRegistry := (tlsConfigRegistry st)(key \<mapsto> cfg)\<rparr>"

subsection \<open>The functions of config.go\<close>

text \<open>\<^verbatim>\<open>ReadConfig\<close> (lines 49 to 62).\<close>

definition ReadConfig :: "world \<Rightarrow> state \<Rightarrow> error + config" where
  "ReadConfig w st =
     (case os_ReadFile w (ConfigFile st) of
        Inl err \<Rightarrow> Inl err
      | Inr file \<Rightarrow>
          (case yaml_Unmarshal w file of
             Inl err \<Rightarrow> Inl err
           | Inr config \<Rightarrow> Inr config))"

text \<open>
  \<^verbatim>\<open>GetEnvironment\<close> (lines 64 to 99). The descriptor is updated through the pointer
  taken from the map, which is local to the call; the model returns the updated record.
\<close>

definition GetEnvironment :: "world \<Rightarrow> state \<Rightarrow> (error + Environment) \<times> state" where
  "GetEnvironment w st =
     (case ReadConfig w st of
        Inl err \<Rightarrow> (Inl err, st)
      | Inr config \<Rightarrow>
          (case index config (ConfigEnvironment st) of
             None \<Rightarrow> (Inl (New (''No environment: '' @ ConfigEnvironment st)), st)
           | Some env \<Rightarrow>
               if Dialect env = [] then (Inl (New ''No dialect specified''), st)
               else if DataSource env = [] then (Inl (New ''No data source specified''), st)
               else
                 (let env1 = env\<lparr>DataSource := ExpandEnv w (DataSource env)\<rparr>;
                      env2 = (if Dir env1 = [] then env1\<lparr>Dir := ''migrations''\<rparr> else env1);
                      st1 = (if TableName env2 \<noteq> [] then SetTable (TableName env2) st else st);
                      st2 = (if SchemaName env2 \<noteq> [] then SetSchema (SchemaName env2) st1
                             else st1);
                      st3 = SetIgnoreUnknown (IgnoreUnknown env2) st2
                  in (Inr env2, st3))))"

text \<open>\<^verbatim>\<open>isTlsEnabled\<close> (lines 156 to 158).\<close>

definition isTlsEnabled :: "Environment \<Rightarrow> bool" where
  "isTlsEnabled env = Contains (DataSource env) ''tls=custom''"

text \<open>
  \<^verbatim>\<open>RegisterTlsConfig\<close> (lines 129 to 146); the result is the returned error, \<open>None\<close>
  for nil.
\<close>

definition RegisterTlsConfig ::
  "world \<Rightarrow> string \<Rightarrow> string \<Rightarrow> string \<Rightarrow> state \<Rightarrow> error option \<times> state" where
  "RegisterTlsConfig w pemPath tlsConfigKey serverName st =
     (let st0 = record_call (Call_RegisterTlsConfig pemPath tlsConfigKey serverName) st in
      case os_ReadFile w pemPath of
        Inl err \<Rightarrow> (Some err, st0)
      | Inr pem \<Rightarrow>
          (let caCertPool = x509_certs w pem in
           if caCertPool = [] then (Some (New ''cannot append certs from PEM''), st0)
           else
             (None,
              mysql_RegisterTLSConfig tlsConfigKey
                \<lparr>RootCAs = caCertPool, ServerName = serverName\<rparr> st0)))"

text \<open>
  \<^verbatim>\<open>GetConnection\<close> (lines 101 to 127): TLS registration when applicable, then
  \<^verbatim>\<open>sql.Open\<close>, then \<^verbatim>\<open>Ping\<close>, then the lookup in \<^verbatim>\<open>dialects\<close>.
\<close>

definition GetConnection ::
  "world \<Rightarrow> Environment \<Rightarrow> state \<Rightarrow> (error + sql_DB \<times> string) \<times> state" where
  "GetConnection w env st =
     (let (tls_err, st1) =
            (if Dialect env = ''mysql'' \<and> isTlsEnabled env
             then RegisterTlsConfig w (Getenv w ''MYSQL_CA_CERT_FILE'') ''custom''
                    (Getenv w ''MYSQL_HOST'') st
             else (None, st))
      in
      case tls_err of
        Some err \<Rightarrow> (Inl (Wrap ''cannot register TLS config: '' err), st1)
      | None \<Rightarrow>
          (let st2 = record_call (Call_sql_Open (Dialect env) (DataSource env)) st1 in
           case sql_Open w (tlsConfigRegistry st1) (Dialect env) (DataSource env) of
             Inl err \<Rightarrow> (Inl (Wrap ''cannot connect to database: '' err), st2)
           | Inr db \<Rightarrow>
               (let st3 = record_call Call_Ping st2 in
                case db_Ping w db of
                  Some err \<Rightarrow> (Inl (Wrap ''cannot ping database: '' err), st3)
                | None \<Rightarrow>
                    (case dialects (Dialect env) of
                       None \<Rightarrow> (Inl (New (''unsupported dialect: '' @ Dialect env)), st3)
                     | Some _ \<Rightarrow> (Inr (db, Dialect env), st3)))))"

subsection \<open>Data sources with placeholders, in the spec's words\<close>

text \<open>
  The spec describes the data source as text with placeholders of the forms
  \<^verbatim>\<open>$VAR\<close> and \<^verbatim>\<open>${VAR}\<close>. A data source of that shape is a list of segments;
  \<open>render\<close> writes it out, and \<open>substitute\<close> is what the spec says resolution
  returns: each placeholder replaced by the variable's value, or by the empty string
  when the variable is unset.
\<close>

datatype segment = Lit string | Var string | BVar string

fun render :: "segment list \<Rightarrow> string" where
  "render [] = []"
| "render (Lit s # segs) = s @ render segs"
| "render (Var name # segs) = ''$'' @ name @ render segs"
| "render (BVar name # segs) = ''${'' @ name @ ''}'' @ render segs"

fun substitute :: "(string \<rightharpoonup> string) \<Rightarrow> segment list \<Rightarrow> string" where
  "substitute vars [] = []"
| "substitute vars (Lit s # segs) = s @ substitute vars segs"
| "substitute vars (Var name # segs) =
     (case vars name of None \<Rightarrow> [] | Some v \<Rightarrow> v) @ substitute vars segs"
| "substitute vars (BVar name # segs) =
     (case vars name of None \<Rightarrow> [] | Some v \<Rightarrow> v) @ substitute vars segs"

text \<open>
  The segments are read back unambiguously when literal text has no dollar sign, a
  name written \<^verbatim>\<open>$VAR\<close> is a non-empty run of letters, digits and underscores that
  does not start with a digit and is not followed by another such character, and a
  name written \<^verbatim>\<open>${VAR}\<close> is non-empty and has no closing brace.
\<close>

fun well_formed :: "segment list \<Rightarrow> bool" where
  "well_formed [] = True"
| "well_formed (Lit s # segs) = (CHR ''$'' \<notin> set s \<and> well_formed segs)"
| "well_formed (Var name # segs) =
     (name \<noteq> [] \<and> list_all isAlphaNum name \<and> \<not> isShellSpecialVar (hd name)
      \<and> (case render segs of [] \<Rightarrow> True | c # _ \<Rightarrow> \<not> isAlphaNum c)
      \<and> well_formed segs)"
| "well_formed (BVar name # segs) =
     (name \<noteq> [] \<and> CHR ''}'' \<notin> set name \<and> well_formed segs)"

subsection \<open>A concrete world\<close>

text \<open>
  A configuration file with six environments, among them the scenarios of the spec:
  \<^verbatim>\<open>production\<close> (postgres, a custom table), \<^verbatim>\<open>development\<close> (the data source
  \<^verbatim>\<open>$DB_URL\<close>), \<^verbatim>\<open>aurora\<close> (mysql with the custom TLS marker), two incomplete
  entries and a key with a null value.
\<close>

definition env_production :: Environment where
  "env_production =
     \<lparr>Dialect = ''postgres'', DataSource = ''postgres://u:p@host/db'', Dir = [],
      TableName = ''custom_migrations'', SchemaName = [], IgnoreUnknown = False\<rparr>"

definition env_development :: Environment where
  "env_development =
     \<lparr>Dialect = ''sqlite3'', DataSource = ''$DB_URL'', Dir = ''db/migrations'',
      TableName = [], SchemaName = [], IgnoreUnknown = True\<rparr>"

definition env_aurora :: Environment where
  "env_aurora =
     \<lparr>Dialect = ''mysql'', DataSource = ''${DB_USER}@tcp($MYSQL_HOST:3306)/app?tls=custom'',
      Dir = [], TableName = [], SchemaName = ''app'', IgnoreUnknown = False\<rparr>"

definition env_empty :: Environment where
  "env_empty =
     \<lparr>Dialect = [], DataSource = [], Dir = [], TableName = ''t'', SchemaName = ''s'',
      IgnoreUnknown = True\<rparr>"

definition env_nosource :: Environment where
  "env_nosource =
     \<lparr>Dialect = ''mysql'', DataSource = [], Dir = [], TableName = ''t'', SchemaName = ''s'',
      IgnoreUnknown = True\<rparr>"

definition env_oracle :: Environment where
  "env_oracle =
     \<lparr>Dialect = ''oracle'', DataSource = ''oracle://u:p@host/db'', Dir = ''migrations'',
      TableName = [], SchemaName = [], IgnoreUnknown = False\<rparr>"

definition example_config :: config where
  "example_config =
     [''production'' \<mapsto> Some env_production,
      ''development'' \<mapsto> Some env_development,
      ''aurora'' \<mapsto> Some env_aurora,
      ''empty'' \<mapsto> Some env_empty,
      ''nosource'' \<mapsto> Some env_nosource,
      ''null'' \<mapsto> None]"

text \<open>
  The file \<^verbatim>\<open>dbconfig.yml\<close> holds that configuration, \<^verbatim>\<open>garbage.yml\<close> does not
  parse, and no other file exists (in particular not the CA certificate file). The
  drivers compiled in are the three of the import list; the database answers the ping.
\<close>

definition example_world :: world where
  "example_world =
     \<lparr>os_ReadFile = (\<lambda>path.
        if path = ''dbconfig.yml'' then Inr ''production: ...''
        else if path = ''garbage.yml'' then Inr '':''
        else Inl (External ''no such file or directory'')),
      yaml_Unmarshal = (\<lambda>file.
        if file = ''production: ...'' then Inr example_config
        else Inl (External ''yaml: did not find expected key'')),
      os_environ =
        [''DB_URL'' \<mapsto> ''sqlite:///tmp/x.db'',
         ''MYSQL_CA_CERT_FILE'' \<mapsto> ''/nonexistent/ca.pem'',
         ''MYSQL_HOST'' \<mapsto> ''db.example.com''],
      x509_certs = (\<lambda>pem. []),
      sql_Open = (\<lambda>registry driverName dataSourceName.
        if driverName = ''sqlite3'' then Inr (DB 1)
        else if driverName = ''postgres'' then Inr (DB 2)
        else if driverName = ''mysql'' then Inr (DB 3)
        else Inl (External ''sql: unknown driver (forgotten import?)'')),
      db_Ping = (\<lambda>db. None)\<rparr>"

definition example_state :: "string \<Rightarrow> string \<Rightarrow> state" where
  "example_state file name =
     \<lparr>ConfigFile = file, ConfigEnvironment = name,
      migrate_TableName = ''gorp_migrations'', migrate_SchemaName = [],
      migrate_IgnoreUnknown = False, tlsConfigRegistry = Map.empty, calls = []\<rparr>"

text \<open>
  Three variations: a world whose certificate file is readable but holds no
  certificate, a world whose configuration lacks the key \<^verbatim>\<open>null\<close>, and a world with
  a driver registered under every name.
\<close>

definition badpem_world :: world where
  "badpem_world =
     example_world\<lparr>os_ReadFile := (\<lambda>path. Inr ''not a certificate''),
                    x509_certs := (\<lambda>pem. [])\<rparr>"

definition nokey_world :: world where
  "nokey_world =
     example_world\<lparr>yaml_Unmarshal := (\<lambda>file. Inr (example_config(''null'' := None)))\<rparr>"

definition anydriver_world :: world where
  "anydriver_world =
     example_world\<lparr>sql_Open := (\<lambda>registry driverName dataSourceName. Inr (DB 4))\<rparr>"

section \<open>Properties\<close>

subsection \<open>Strings and expansion\<close>

lemma HasPrefix_append: "HasPrefix (sub @ post) sub"
  by (simp add: HasPrefix_def)

lemma HasPrefix_decompose: "HasPrefix s sub \<Longrightarrow> \<exists>post. s = sub @ post"
  unfolding HasPrefix_def by (metis append_take_drop_id)

lemma Contains_decompose: "Contains s sub \<Longrightarrow> \<exists>pre post. s = pre @ sub @ post"
proof (induction s)
  case Nil
  then show ?case by simp
next
  case (Cons c s)
  from Cons.prems have "HasPrefix (c # s) sub \<or> Contains s sub" by simp
  then show ?case
  proof
    assume "HasPrefix (c # s) sub"
    then obtain post where "c # s = sub @ post" using HasPrefix_decompose by blast
    then have "c # s = [] @ sub @ post" by simp
    then show ?thesis by blast
  next
    assume "Contains s sub"
    then obtain pre post where "s = pre @ sub @ post" using Cons.IH by blast
    then have "c # s = (c # pre) @ sub @ post" by simp
    then show ?thesis by blast
  qed
qed

lemma Contains_compose: "Contains (pre @ sub @ post) sub"
proof (induction pre)
  case Nil
  show ?case
  proof (cases "sub @ post")
    case Nil
    then show ?thesis by simp
  next
    case (Cons c s)
    have "HasPrefix (sub @ post) sub" by (rule HasPrefix_append)
    with Cons show ?thesis by simp
  qed
next
  case (Cons c pre)
  then show ?case by simp
qed

lemma Contains_iff: "Contains s sub \<longleftrightarrow> (\<exists>pre post. s = pre @ sub @ post)"
  using Contains_decompose Contains_compose by blast

lemma Expand_literal:
  "CHR ''$'' \<notin> set s \<Longrightarrow> Expand (s @ t) mapping = s @ Expand t mapping"
  by (induction s) auto

lemma brace_not_alnum: "\<not> isAlphaNum (CHR ''{'')"
  by (simp add: isAlphaNum_def)

lemma takeWhile_name:
  "list_all P name \<Longrightarrow> (case r of [] \<Rightarrow> True | c # _ \<Rightarrow> \<not> P c) \<Longrightarrow>
   takeWhile P (name @ r) = name"
  by (cases r) (auto simp: list_all_iff)

lemma getShellName_plain:
  assumes "name \<noteq> []" "list_all isAlphaNum name" "\<not> isShellSpecialVar (hd name)"
    "case r of [] \<Rightarrow> True | c # _ \<Rightarrow> \<not> isAlphaNum c"
  shows "getShellName (name @ r) = (name, length name)"
proof -
  obtain c cs where n: "name = c # cs" using assms(1) by (cases name) auto
  have c: "c \<noteq> CHR ''{''" using assms(2) n brace_not_alnum by auto
  have tw: "takeWhile isAlphaNum (c # cs @ r) = c # cs"
    using takeWhile_name[OF assms(2) assms(4)] n by simp
  show ?thesis using assms(3) c n tw by (simp del: takeWhile.simps)
qed

lemma getShellName_braced:
  assumes "name \<noteq> []" "CHR ''}'' \<notin> set name"
  shows "getShellName (''{'' @ name @ ''}'' @ r) = (name, length name + 2)"
proof -
  have tw: "takeWhile (\<lambda>x. x \<noteq> CHR ''}'') (name @ CHR ''}'' # r) = name"
    using assms(2) by (induction name) auto
  show ?thesis
  proof (cases "isShellSpecialVar (hd name) \<and> (name @ CHR ''}'' # r) ! 1 = CHR ''}''")
    case True
    then have "length name = 1" using assms
      by (cases name; cases "tl name") auto
    then obtain x where "name = [x]" by (cases name) auto
    with True show ?thesis by simp
  next
    case False
    then show ?thesis using assms tw
      by (cases name) (auto simp: Let_def)
  qed
qed

text \<open>
  \<^verbatim>\<open>os.ExpandEnv\<close> on a well-formed data source does what the spec says: every
  placeholder is replaced by the variable's value, or by nothing when it is unset.
\<close>

lemma Expand_render:
  "well_formed segs \<Longrightarrow> Expand (render segs) (Getenv w) = substitute (os_environ w) segs"
proof (induction segs)
  case Nil
  then show ?case by simp
next
  case (Cons seg segs)
  show ?case
  proof (cases seg)
    case (Lit s)
    with Cons show ?thesis by (simp add: Expand_literal)
  next
    case (Var name)
    with Cons have g: "getShellName (name @ render segs) = (name, length name)"
      by (intro getShellName_plain) auto
    from Var Cons show ?thesis by (simp add: g Getenv_def)
  next
    case (BVar name)
    with Cons have g:
      "getShellName (''{'' @ name @ ''}'' @ render segs) = (name, length name + 2)"
      by (intro getShellName_braced) auto
    from BVar Cons show ?thesis using g by (simp add: Getenv_def)
  qed
qed

subsection \<open>Helper facts\<close>

lemma dom_dialects: "dom dialects = {''sqlite3'', ''postgres'', ''mysql''}"
  by (auto simp: dialects_def split: if_splits)

lemma ReadConfig_example:
  "ReadConfig example_world (example_state ''dbconfig.yml'' name) = Inr example_config"
  by (simp add: ReadConfig_def example_world_def example_state_def)

lemma ConfigEnvironment_example: "ConfigEnvironment (example_state file name) = name"
  by (simp add: example_state_def)

lemma GetEnvironment_no_descriptor:
  "ReadConfig w st = Inr config \<Longrightarrow> index config (ConfigEnvironment st) = None \<Longrightarrow>
   GetEnvironment w st = (Inl (New (''No environment: '' @ ConfigEnvironment st)), st)"
  by (simp add: GetEnvironment_def)

lemma aurora_marker:
  "\<exists>pre post. DataSource env_aurora = pre @ ''tls=custom'' @ post"
proof -
  have "DataSource env_aurora = ''${DB_USER}@tcp($MYSQL_HOST:3306)/app?'' @ ''tls=custom'' @ []"
    by (simp add: env_aurora_def)
  then show ?thesis by blast
qed

lemma Getenv_example:
  "Getenv example_world ''MYSQL_CA_CERT_FILE'' = ''/nonexistent/ca.pem''"
  "Getenv example_world ''MYSQL_HOST'' = ''db.example.com''"
  by (simp_all add: Getenv_def example_world_def)

lemma Getenv_badpem:
  "Getenv badpem_world ''MYSQL_CA_CERT_FILE'' = ''/nonexistent/ca.pem''"
  "Getenv badpem_world ''MYSQL_HOST'' = ''db.example.com''"
  by (simp_all add: Getenv_def badpem_world_def example_world_def)

subsection \<open>Claims about the connection opener\<close>

text \<open>
  Claim C1. For every environment descriptor, \<^verbatim>\<open>GetConnection\<close> invokes
  \<^verbatim>\<open>RegisterTlsConfig\<close> if and only if the dialect equals \<^verbatim>\<open>mysql\<close> and the data
  source contains the substring \<^verbatim>\<open>tls=custom\<close>; for any other dialect, or a data
  source without the marker, it is never invoked.
\<close>

theorem C1_tls_registration_iff:
  "(\<exists>pemPath key serverName.
      Call_RegisterTlsConfig pemPath key serverName
        \<in> set (new_calls st (snd (GetConnection w env st))))
   \<longleftrightarrow> Dialect env = ''mysql'' \<and> (\<exists>pre post. DataSource env = pre @ ''tls=custom'' @ post)"
proof -
  have c: "isTlsEnabled env \<longleftrightarrow> (\<exists>pre post. DataSource env = pre @ ''tls=custom'' @ post)"
    by (simp only: isTlsEnabled_def Contains_iff)
  show ?thesis
    unfolding c[symmetric]
    by (auto simp: GetConnection_def RegisterTlsConfig_def new_calls_def record_call_def
        mysql_RegisterTLSConfig_def Let_def
        split: sum.splits option.splits prod.splits if_splits)
qed

theorem C1_tls_registration_witness:
  "(\<exists>pemPath key serverName.
      Call_RegisterTlsConfig pemPath key serverName
        \<in> set (new_calls (example_state ''dbconfig.yml'' ''aurora'')
             (snd (GetConnection example_world env_aurora
                    (example_state ''dbconfig.yml'' ''aurora'')))))
   \<and> \<not> (\<exists>pemPath key serverName.
      Call_RegisterTlsConfig pemPath key serverName
        \<in> set (new_calls (example_state ''dbconfig.yml'' ''production'')
             (snd (GetConnection example_world env_production
                    (example_state ''dbconfig.yml'' ''production'')))))"
proof -
  have b: "Dialect env_aurora = ''mysql''" by (simp add: env_aurora_def)
  have c: "Dialect env_production \<noteq> ''mysql''" by (simp add: env_production_def)
  show ?thesis
    using C1_tls_registration_iff
        [of "example_state ''dbconfig.yml'' ''aurora''" example_world env_aurora]
      C1_tls_registration_iff
        [of "example_state ''dbconfig.yml'' ''production''" example_world env_production]
      aurora_marker b c by blast
qed

text \<open>
  Claim C4, as the spec states it: for every descriptor whose dialect is not one of
  \<^verbatim>\<open>sqlite3\<close>, \<^verbatim>\<open>postgres\<close>, \<^verbatim>\<open>mysql\<close>, opening a connection fails with an
  "unsupported dialect" error. The code opens and pings before it looks the dialect
  up, so with no driver registered under the name the error is the wrapped error of
  \<^verbatim>\<open>sql.Open\<close>, whose message does not mention an unsupported dialect.
\<close>

theorem C4_counterexample:
  "Dialect env_oracle \<notin> {''sqlite3'', ''postgres'', ''mysql''}
   \<and> fst (GetConnection example_world env_oracle (example_state ''dbconfig.yml'' ''oracle''))
       = Inl (Wrap ''cannot connect to database: ''
               (External ''sql: unknown driver (forgotten import?)''))
   \<and> \<not> Contains
         (Error (Wrap ''cannot connect to database: ''
                  (External ''sql: unknown driver (forgotten import?)'')))
         ''unsupported dialect''"
  by (simp add: GetConnection_def example_world_def example_state_def env_oracle_def
      record_call_def HasPrefix_def)

text \<open>
  Claim C4, amended. For every descriptor whose dialect is not one of \<^verbatim>\<open>sqlite3\<close>,
  \<^verbatim>\<open>postgres\<close>, \<^verbatim>\<open>mysql\<close>, opening a connection fails: with the wrapped error of
  \<^verbatim>\<open>sql.Open\<close> when the open call fails, else with the wrapped error of the ping when
  the ping fails, and with the error "unsupported dialect: " followed by the dialect
  only when both succeed.
\<close>

theorem C4_unsupported_dialect_fails:
  assumes "Dialect env \<notin> {''sqlite3'', ''postgres'', ''mysql''}"
  shows "fst (GetConnection w env st) =
           Inl (case sql_Open w (tlsConfigRegistry st) (Dialect env) (DataSource env) of
                  Inl err \<Rightarrow> Wrap ''cannot connect to database: '' err
                | Inr db \<Rightarrow>
                    (case db_Ping w db of
                       Some err \<Rightarrow> Wrap ''cannot ping database: '' err
                     | None \<Rightarrow> New (''unsupported dialect: '' @ Dialect env)))"
proof -
  from assms have "Dialect env \<notin> dom dialects" by (simp add: dom_dialects)
  then have d: "dialects (Dialect env) = None" by blast
  from assms have m: "Dialect env \<noteq> ''mysql''" by auto
  show ?thesis
    by (simp add: GetConnection_def d m Let_def split: sum.splits option.splits)
qed

theorem C4_unsupported_dialect_witness:
  "fst (GetConnection example_world env_oracle (example_state ''dbconfig.yml'' ''oracle''))
     = Inl (Wrap ''cannot connect to database: ''
             (External ''sql: unknown driver (forgotten import?)''))
   \<and> fst (GetConnection anydriver_world env_oracle (example_state ''dbconfig.yml'' ''oracle''))
     = Inl (New ''unsupported dialect: oracle'')"
proof -
  have h: "Dialect env_oracle \<notin> {''sqlite3'', ''postgres'', ''mysql''}"
    by (simp add: env_oracle_def)
  show ?thesis
    using C4_unsupported_dialect_fails
        [OF h, of example_world "example_state ''dbconfig.yml'' ''oracle''"]
      C4_unsupported_dialect_fails
        [OF h, of anydriver_world "example_state ''dbconfig.yml'' ''oracle''"]
    by (simp add: example_world_def anydriver_world_def env_oracle_def example_state_def)
qed

text \<open>
  Claim C5. For every mysql environment whose data source contains the custom-TLS
  marker, if the file named by \<^verbatim>\<open>MYSQL_CA_CERT_FILE\<close> is unreadable, or no certificate
  of its content can be appended to the pool, then \<^verbatim>\<open>RegisterTlsConfig\<close> returns an
  error, \<^verbatim>\<open>GetConnection\<close> returns that error wrapped with context, and \<^verbatim>\<open>sql.Open\<close>
  is never reached.
\<close>

theorem C5_tls_failure_stops_before_open:
  assumes "Dialect env = ''mysql''"
    and "\<exists>pre post. DataSource env = pre @ ''tls=custom'' @ post"
    and "case os_ReadFile w (Getenv w ''MYSQL_CA_CERT_FILE'') of
           Inl err \<Rightarrow> True | Inr pem \<Rightarrow> x509_certs w pem = []"
  shows "\<exists>err.
           fst (RegisterTlsConfig w (Getenv w ''MYSQL_CA_CERT_FILE'') ''custom''
                  (Getenv w ''MYSQL_HOST'') st) = Some err
         \<and> err = (case os_ReadFile w (Getenv w ''MYSQL_CA_CERT_FILE'') of
                    Inl e \<Rightarrow> e | Inr pem \<Rightarrow> New ''cannot append certs from PEM'')
         \<and> fst (GetConnection w env st) = Inl (Wrap ''cannot register TLS config: '' err)
         \<and> new_calls st (snd (GetConnection w env st))
             = [Call_RegisterTlsConfig (Getenv w ''MYSQL_CA_CERT_FILE'') ''custom''
                  (Getenv w ''MYSQL_HOST'')]
         \<and> (\<forall>d ds. Call_sql_Open d ds \<notin> set (new_calls st (snd (GetConnection w env st))))
         \<and> tlsConfigRegistry (snd (GetConnection w env st)) = tlsConfigRegistry st"
proof -
  have c: "isTlsEnabled env" using assms(2) by (simp only: isTlsEnabled_def Contains_iff)
  show ?thesis
    using assms(1,3) c
    by (auto simp: GetConnection_def RegisterTlsConfig_def new_calls_def record_call_def
        Let_def split: sum.splits)
qed

theorem C5_tls_failure_witness:
  "fst (GetConnection example_world env_aurora (example_state ''dbconfig.yml'' ''aurora''))
     = Inl (Wrap ''cannot register TLS config: '' (External ''no such file or directory''))
   \<and> new_calls (example_state ''dbconfig.yml'' ''aurora'')
       (snd (GetConnection example_world env_aurora (example_state ''dbconfig.yml'' ''aurora'')))
     = [Call_RegisterTlsConfig ''/nonexistent/ca.pem'' ''custom'' ''db.example.com'']
   \<and> fst (GetConnection badpem_world env_aurora (example_state ''dbconfig.yml'' ''aurora''))
     = Inl (Wrap ''cannot register TLS config: '' (New ''cannot append certs from PEM''))
   \<and> new_calls (example_state ''dbconfig.yml'' ''aurora'')
       (snd (GetConnection badpem_world env_aurora (example_state ''dbconfig.yml'' ''aurora'')))
     = [Call_RegisterTlsConfig ''/nonexistent/ca.pem'' ''custom'' ''db.example.com'']"
proof -
  have a: "Dialect env_aurora = ''mysql''" by (simp add: env_aurora_def)
  have r: "os_ReadFile example_world ''/nonexistent/ca.pem''
             = Inl (External ''no such file or directory'')"
    by (simp add: example_world_def)
  have r': "os_ReadFile badpem_world ''/nonexistent/ca.pem'' = Inr ''not a certificate''"
    "x509_certs badpem_world ''not a certificate'' = []"
    by (simp_all add: badpem_world_def)
  have c: "case os_ReadFile example_world (Getenv example_world ''MYSQL_CA_CERT_FILE'') of
           Inl err \<Rightarrow> True | Inr pem \<Rightarrow> x509_certs example_world pem = []"
    by (simp add: Getenv_example r)
  have c': "case os_ReadFile badpem_world (Getenv badpem_world ''MYSQL_CA_CERT_FILE'') of
           Inl err \<Rightarrow> True | Inr pem \<Rightarrow> x509_certs badpem_world pem = []"
    by (simp add: Getenv_badpem r')
  show ?thesis
    using C5_tls_failure_stops_before_open
        [OF a aurora_marker c, of "example_state ''dbconfig.yml'' ''aurora''"]
      C5_tls_failure_stops_before_open
        [OF a aurora_marker c', of "example_state ''dbconfig.yml'' ''aurora''"]
    by (simp add: Getenv_example Getenv_badpem r r')
qed

text \<open>
  Claim C10. Whenever \<^verbatim>\<open>GetConnection\<close> succeeds, the dialect string it returns equals
  the descriptor's dialect and is a key of the static registry \<^verbatim>\<open>dialects\<close>, that
  is, one of \<^verbatim>\<open>sqlite3\<close>, \<^verbatim>\<open>postgres\<close>, \<^verbatim>\<open>mysql\<close>.
\<close>

theorem C10_returned_dialect:
  "fst (GetConnection w env st) = Inr (db, d) \<Longrightarrow>
   d = Dialect env \<and> d \<in> {''sqlite3'', ''postgres'', ''mysql''} \<and> d \<in> dom dialects"
  unfolding dom_dialects[symmetric]
  by (auto simp: GetConnection_def Let_def split: sum.splits option.splits prod.splits if_splits)

theorem C10_returned_dialect_witness:
  "fst (GetConnection example_world env_production (example_state ''dbconfig.yml'' ''production''))
     = Inr (DB 2, ''postgres'')
   \<and> ''postgres'' = Dialect env_production
   \<and> ''postgres'' \<in> {''sqlite3'', ''postgres'', ''mysql''} \<and> ''postgres'' \<in> dom dialects"
proof -
  have h: "fst (GetConnection example_world env_production
                 (example_state ''dbconfig.yml'' ''production''))
     = Inr (DB 2, ''postgres'')"
    by (simp add: GetConnection_def example_world_def example_state_def env_production_def
        dialects_def Let_def isTlsEnabled_def)
  from h C10_returned_dialect[OF h] show ?thesis by (rule conjI)
qed

subsection \<open>Claims about environment resolution\<close>

text \<open>
  Claim C2. For every parsed configuration that has the selected environment name,
  \<^verbatim>\<open>GetEnvironment\<close> fails with the error "No dialect specified" when the dialect is
  empty, and with the error "No data source specified" when the dialect is not empty
  and the data source is; the dialect is checked first, so an entry with both fields
  empty gives the dialect error.
\<close>

theorem C2_dialect_before_data_source:
  assumes "ReadConfig w st = Inr config"
    and "config (ConfigEnvironment st) = Some (Some env)"
  shows "(Dialect env = [] \<longrightarrow>
            GetEnvironment w st = (Inl (New ''No dialect specified''), st))
       \<and> (Dialect env \<noteq> [] \<longrightarrow> DataSource env = [] \<longrightarrow>
            GetEnvironment w st = (Inl (New ''No data source specified''), st))"
  using assms by (simp add: GetEnvironment_def index_def)

theorem C2_dialect_before_data_source_witness:
  "Dialect env_empty = [] \<and> DataSource env_empty = []
   \<and> GetEnvironment example_world (example_state ''dbconfig.yml'' ''empty'')
     = (Inl (New ''No dialect specified''), example_state ''dbconfig.yml'' ''empty'')
   \<and> GetEnvironment example_world (example_state ''dbconfig.yml'' ''nosource'')
     = (Inl (New ''No data source specified''), example_state ''dbconfig.yml'' ''nosource'')"
proof -
  have e: "example_config (ConfigEnvironment (example_state ''dbconfig.yml'' ''empty''))
            = Some (Some env_empty)"
    by (simp add: example_config_def example_state_def)
  have n: "example_config (ConfigEnvironment (example_state ''dbconfig.yml'' ''nosource''))
            = Some (Some env_nosource)"
    by (simp add: example_config_def example_state_def)
  have "Dialect env_empty = [] \<and> DataSource env_empty = []" by (simp add: env_empty_def)
  moreover have "Dialect env_nosource \<noteq> [] \<and> DataSource env_nosource = []"
    by (simp add: env_nosource_def)
  ultimately show ?thesis
    using C2_dialect_before_data_source[OF ReadConfig_example e]
      C2_dialect_before_data_source[OF ReadConfig_example n] by blast
qed

text \<open>
  Claim C3. For every configuration with a valid entry under the selected name (dialect
  and data source not empty), \<^verbatim>\<open>GetEnvironment\<close> succeeds and returns a descriptor
  whose data source is \<^verbatim>\<open>os.ExpandEnv\<close> of the configured one, so that every
  placeholder \<^verbatim>\<open>${VAR}\<close> or \<^verbatim>\<open>$VAR\<close> of a well-formed data source is replaced by
  the variable's value in the process environment (by the empty string when it is
  unset, with no error), and whose migrations directory is the configured one, or
  \<^verbatim>\<open>migrations\<close> when the configured one is empty. The other fields are returned as
  configured.
\<close>

theorem C3_resolved_descriptor:
  assumes "ReadConfig w st = Inr config"
    and "config (ConfigEnvironment st) = Some (Some env)"
    and "Dialect env \<noteq> []" and "DataSource env \<noteq> []"
  shows "\<exists>env'. fst (GetEnvironment w st) = Inr env'
       \<and> DataSource env' = ExpandEnv w (DataSource env)
       \<and> (\<forall>segs. well_formed segs \<and> render segs = DataSource env \<longrightarrow>
             DataSource env' = substitute (os_environ w) segs)
       \<and> Dir env' = (if Dir env = [] then ''migrations'' else Dir env)
       \<and> Dialect env' = Dialect env \<and> TableName env' = TableName env
       \<and> SchemaName env' = SchemaName env \<and> IgnoreUnknown env' = IgnoreUnknown env"
proof -
  have "\<forall>segs. well_formed segs \<and> render segs = DataSource env \<longrightarrow>
          ExpandEnv w (DataSource env) = substitute (os_environ w) segs"
    using Expand_render[of _ w] by (metis ExpandEnv_def)
  then show ?thesis
    using assms by (simp add: GetEnvironment_def index_def Let_def)
qed

theorem C3_resolved_descriptor_witness:
  "fst (GetEnvironment example_world (example_state ''dbconfig.yml'' ''aurora''))
     = Inr (env_aurora\<lparr>DataSource := ''@tcp(db.example.com:3306)/app?tls=custom'',
                       Dir := ''migrations''\<rparr>)
   \<and> fst (GetEnvironment example_world (example_state ''dbconfig.yml'' ''development''))
     = Inr (env_development\<lparr>DataSource := ''sqlite:///tmp/x.db''\<rparr>)"
proof -
  let ?a = "[BVar ''DB_USER'', Lit ''@tcp('', Var ''MYSQL_HOST'', Lit '':3306)/app?tls=custom'']"
  let ?d = "[Var ''DB_URL'']"
  let ?ra = "fst (GetEnvironment example_world (example_state ''dbconfig.yml'' ''aurora''))"
  let ?rd = "fst (GetEnvironment example_world (example_state ''dbconfig.yml'' ''development''))"
  have ca: "example_config (ConfigEnvironment (example_state ''dbconfig.yml'' ''aurora''))
            = Some (Some env_aurora)"
    by (simp add: example_config_def example_state_def)
  have cd: "example_config (ConfigEnvironment (example_state ''dbconfig.yml'' ''development''))
            = Some (Some env_development)"
    by (simp add: example_config_def example_state_def)
  have wa: "well_formed ?a \<and> render ?a = DataSource env_aurora"
    by (simp add: env_aurora_def isAlphaNum_def isShellSpecialVar_def)
  have wd: "well_formed ?d \<and> render ?d = DataSource env_development"
    by (simp add: env_development_def isAlphaNum_def isShellSpecialVar_def)
  have sa: "substitute (os_environ example_world) ?a = ''@tcp(db.example.com:3306)/app?tls=custom''"
    by (simp add: example_world_def)
  have sd: "substitute (os_environ example_world) ?d = ''sqlite:///tmp/x.db''"
    by (simp add: example_world_def)
  have na: "Dialect env_aurora \<noteq> []" "DataSource env_aurora \<noteq> []"
    by (simp_all add: env_aurora_def)
  have nd: "Dialect env_development \<noteq> []" "DataSource env_development \<noteq> []"
    by (simp_all add: env_development_def)
  from C3_resolved_descriptor[OF ReadConfig_example ca na] wa sa
  obtain a where a: "?ra = Inr a"
    "DataSource a = ''@tcp(db.example.com:3306)/app?tls=custom''"
    "Dir a = (if Dir env_aurora = [] then ''migrations'' else Dir env_aurora)"
    "Dialect a = Dialect env_aurora" "TableName a = TableName env_aurora"
    "SchemaName a = SchemaName env_aurora" "IgnoreUnknown a = IgnoreUnknown env_aurora"
    by metis
  from C3_resolved_descriptor[OF ReadConfig_example cd nd] wd sd
  obtain d where d: "?rd = Inr d"
    "DataSource d = ''sqlite:///tmp/x.db''"
    "Dir d = (if Dir env_development = [] then ''migrations'' else Dir env_development)"
    "Dialect d = Dialect env_development" "TableName d = TableName env_development"
    "SchemaName d = SchemaName env_development"
    "IgnoreUnknown d = IgnoreUnknown env_development"
    by metis
  have "a = env_aurora\<lparr>DataSource := ''@tcp(db.example.com:3306)/app?tls=custom'',
                        Dir := ''migrations''\<rparr>"
    using a(2-) by (simp add: env_aurora_def)
  moreover have "d = env_development\<lparr>DataSource := ''sqlite:///tmp/x.db''\<rparr>"
    using d(2-) by (simp add: env_development_def)
  ultimately show ?thesis using a(1) d(1) by simp
qed

text \<open>
  Claim C6. For every successfully resolved environment, \<^verbatim>\<open>GetEnvironment\<close> calls the
  engine's table-name setter if and only if the descriptor's table name is not empty,
  the schema-name setter if and only if the schema name is not empty, and always sets
  the ignore-unknown flag to the descriptor's value, \<open>False\<close> included: the calls made
  are exactly these, in this order, and the three settings end up accordingly.
\<close>

theorem C6_engine_settings:
  assumes "fst (GetEnvironment w st) = Inr env"
  shows "new_calls st (snd (GetEnvironment w st))
           = (if TableName env \<noteq> [] then [Call_SetTable (TableName env)] else [])
             @ (if SchemaName env \<noteq> [] then [Call_SetSchema (SchemaName env)] else [])
             @ [Call_SetIgnoreUnknown (IgnoreUnknown env)]
       \<and> migrate_TableName (snd (GetEnvironment w st))
           = (if TableName env \<noteq> [] then TableName env else migrate_TableName st)
       \<and> migrate_SchemaName (snd (GetEnvironment w st))
           = (if SchemaName env \<noteq> [] then SchemaName env else migrate_SchemaName st)
       \<and> migrate_IgnoreUnknown (snd (GetEnvironment w st)) = IgnoreUnknown env"
  using assms
  by (auto simp: GetEnvironment_def SetTable_def SetSchema_def SetIgnoreUnknown_def
      new_calls_def record_call_def Let_def
      split: sum.splits option.splits if_splits)

lemma GetEnvironment_production:
  "fst (GetEnvironment example_world
          ((example_state ''dbconfig.yml'' ''production'')\<lparr>migrate_IgnoreUnknown := True\<rparr>))
     = Inr (env_production\<lparr>Dir := ''migrations''\<rparr>)"
  by (simp add: GetEnvironment_def ReadConfig_def example_world_def index_def
      example_config_def env_production_def ExpandEnv_def Let_def example_state_def)

theorem C6_engine_settings_witness:
  "new_calls ((example_state ''dbconfig.yml'' ''production'')\<lparr>migrate_IgnoreUnknown := True\<rparr>)
     (snd (GetEnvironment example_world
        ((example_state ''dbconfig.yml'' ''production'')\<lparr>migrate_IgnoreUnknown := True\<rparr>)))
     = [Call_SetTable ''custom_migrations'', Call_SetIgnoreUnknown False]
   \<and> migrate_TableName
       (snd (GetEnvironment example_world
          ((example_state ''dbconfig.yml'' ''production'')\<lparr>migrate_IgnoreUnknown := True\<rparr>)))
     = ''custom_migrations''
   \<and> migrate_SchemaName
       (snd (GetEnvironment example_world
          ((example_state ''dbconfig.yml'' ''production'')\<lparr>migrate_IgnoreUnknown := True\<rparr>)))
     = []
   \<and> migrate_IgnoreUnknown
       (snd (GetEnvironment example_world
          ((example_state ''dbconfig.yml'' ''production'')\<lparr>migrate_IgnoreUnknown := True\<rparr>)))
     = False"
  using C6_engine_settings[OF GetEnvironment_production]
  by (simp add: env_production_def example_state_def)

text \<open>
  Claim C7. For every parsed configuration and every selected environment name that is
  not a key of it, \<^verbatim>\<open>GetEnvironment\<close> fails with an error whose message contains the
  requested name: the message is "No environment: " followed by the name.
\<close>

theorem C7_unknown_environment:
  assumes "ReadConfig w st = Inr config"
    and "config (ConfigEnvironment st) = None"
  shows "fst (GetEnvironment w st) = Inl (New (''No environment: '' @ ConfigEnvironment st))
       \<and> (\<exists>pre post. Error (New (''No environment: '' @ ConfigEnvironment st))
                        = pre @ ConfigEnvironment st @ post)"
proof -
  have "''No environment: '' @ ConfigEnvironment st
          = ''No environment: '' @ ConfigEnvironment st @ []" by simp
  then have "\<exists>pre post. ''No environment: '' @ ConfigEnvironment st
          = pre @ ConfigEnvironment st @ post" by blast
  then show ?thesis
    using assms by (simp add: GetEnvironment_def index_def)
qed

theorem C7_unknown_environment_witness:
  "fst (GetEnvironment example_world (example_state ''dbconfig.yml'' ''staging''))
     = Inl (New ''No environment: staging'')"
proof -
  have n: "example_config (ConfigEnvironment (example_state ''dbconfig.yml'' ''staging'')) = None"
    by (simp add: example_config_def example_state_def)
  from C7_unknown_environment[OF ReadConfig_example n]
  have "fst (GetEnvironment example_world (example_state ''dbconfig.yml'' ''staging''))
     = Inl (New (''No environment: ''
                  @ ConfigEnvironment (example_state ''dbconfig.yml'' ''staging'')))"
    by (rule conjunct1)
  then show ?thesis by (simp add: ConfigEnvironment_example)
qed

text \<open>
  Claim C8. Whenever \<^verbatim>\<open>GetEnvironment\<close> returns an error (unreadable or unparseable
  file, unknown environment name, empty dialect, empty data source), the package-level
  state is the one it started from: none of the engine's table name, schema name and
  ignore-unknown flag has been modified, and no setter has been called.
\<close>

theorem C8_error_leaves_state_unchanged:
  assumes "fst (GetEnvironment w st) = Inl err"
  shows "snd (GetEnvironment w st) = st"
  using assms
  by (auto simp: GetEnvironment_def Let_def split: sum.splits option.splits if_splits)

theorem C8_error_leaves_state_unchanged_witness:
  "snd (GetEnvironment example_world (example_state ''missing.yml'' ''production''))
     = example_state ''missing.yml'' ''production''
   \<and> snd (GetEnvironment example_world (example_state ''garbage.yml'' ''production''))
     = example_state ''garbage.yml'' ''production''
   \<and> snd (GetEnvironment example_world (example_state ''dbconfig.yml'' ''staging''))
     = example_state ''dbconfig.yml'' ''staging''
   \<and> snd (GetEnvironment example_world (example_state ''dbconfig.yml'' ''empty''))
     = example_state ''dbconfig.yml'' ''empty''
   \<and> snd (GetEnvironment example_world (example_state ''dbconfig.yml'' ''nosource''))
     = example_state ''dbconfig.yml'' ''nosource''"
proof -
  have 1: "fst (GetEnvironment example_world (example_state ''missing.yml'' ''production''))
            = Inl (External ''no such file or directory'')"
    by (simp add: GetEnvironment_def ReadConfig_def example_world_def example_state_def)
  have 2: "fst (GetEnvironment example_world (example_state ''garbage.yml'' ''production''))
            = Inl (External ''yaml: did not find expected key'')"
    by (simp add: GetEnvironment_def ReadConfig_def example_world_def example_state_def)
  have 3: "fst (GetEnvironment example_world (example_state ''dbconfig.yml'' ''staging''))
            = Inl (New ''No environment: staging'')"
    by (simp add: GetEnvironment_def ReadConfig_example index_def example_config_def
        ConfigEnvironment_example)
  have 4: "fst (GetEnvironment example_world (example_state ''dbconfig.yml'' ''empty''))
            = Inl (New ''No dialect specified'')"
    by (simp add: GetEnvironment_def ReadConfig_example index_def example_config_def
        ConfigEnvironment_example env_empty_def)
  have 5: "fst (GetEnvironment example_world (example_state ''dbconfig.yml'' ''nosource''))
            = Inl (New ''No data source specified'')"
    by (simp add: GetEnvironment_def ReadConfig_example index_def example_config_def
        ConfigEnvironment_example env_nosource_def)
  show ?thesis
    using C8_error_leaves_state_unchanged[OF 1] C8_error_leaves_state_unchanged[OF 2]
      C8_error_leaves_state_unchanged[OF 3] C8_error_leaves_state_unchanged[OF 4]
      C8_error_leaves_state_unchanged[OF 5]
    by (intro conjI)
qed

text \<open>
  Claim C9. If the configuration has the selected environment name as a key with a
  null value, so that the parsed pointer is nil, \<^verbatim>\<open>GetEnvironment\<close> fails with the
  error "No environment: " followed by the name, the one it gives for a missing key,
  and not with the missing-dialect error.
\<close>

theorem C9_null_entry:
  assumes "ReadConfig w st = Inr config"
    and "config (ConfigEnvironment st) = Some None"
  shows "GetEnvironment w st = (Inl (New (''No environment: '' @ ConfigEnvironment st)), st)
       \<and> fst (GetEnvironment w st) \<noteq> Inl (New ''No dialect specified'')
       \<and> (\<forall>w' st' config'.
             ReadConfig w' st' = Inr config' \<and> config' (ConfigEnvironment st') = None
               \<and> ConfigEnvironment st' = ConfigEnvironment st
             \<longrightarrow> fst (GetEnvironment w' st') = fst (GetEnvironment w st))"
proof -
  have "index config (ConfigEnvironment st) = None"
    using assms(2) by (simp add: index_def)
  then have g: "GetEnvironment w st
                  = (Inl (New (''No environment: '' @ ConfigEnvironment st)), st)"
    using assms(1) by (rule GetEnvironment_no_descriptor[rotated])
  have e: "fst (GetEnvironment w' st') = fst (GetEnvironment w st)"
    if "ReadConfig w' st' = Inr config'" "config' (ConfigEnvironment st') = None"
      "ConfigEnvironment st' = ConfigEnvironment st" for w' st' config'
  proof -
    have "index config' (ConfigEnvironment st') = None"
      using that(2) by (simp add: index_def)
    with that(1) have "GetEnvironment w' st'
                  = (Inl (New (''No environment: '' @ ConfigEnvironment st')), st')"
      by (rule GetEnvironment_no_descriptor)
    with g that(3) show ?thesis by simp
  qed
  have d: "fst (GetEnvironment w st) \<noteq> Inl (New ''No dialect specified'')"
    using g by simp
  have s: "\<forall>w' st' config'.
             ReadConfig w' st' = Inr config' \<and> config' (ConfigEnvironment st') = None
               \<and> ConfigEnvironment st' = ConfigEnvironment st
             \<longrightarrow> fst (GetEnvironment w' st') = fst (GetEnvironment w st)"
    using e by blast
  from g d s show ?thesis by (intro conjI)
qed

theorem C9_null_entry_witness:
  "GetEnvironment example_world (example_state ''dbconfig.yml'' ''null'')
     = (Inl (New ''No environment: null''), example_state ''dbconfig.yml'' ''null'')
   \<and> fst (GetEnvironment nokey_world (example_state ''dbconfig.yml'' ''null''))
     = fst (GetEnvironment example_world (example_state ''dbconfig.yml'' ''null''))"
proof -
  let ?st = "example_state ''dbconfig.yml'' ''null''"
  have n: "example_config (ConfigEnvironment ?st) = Some None"
    by (simp add: example_config_def example_state_def)
  have r: "ReadConfig nokey_world ?st = Inr (example_config(''null'' := None))"
    by (simp add: ReadConfig_def nokey_world_def example_world_def example_state_def)
  have k: "(example_config(''null'' := None)) (ConfigEnvironment ?st) = None"
    by (simp add: example_state_def)
  from C9_null_entry[OF ReadConfig_example n]
  have g: "GetEnvironment example_world ?st
             = (Inl (New (''No environment: '' @ ConfigEnvironment ?st)), ?st)"
    and s: "\<forall>w' st' config'.
             ReadConfig w' st' = Inr config' \<and> config' (ConfigEnvironment st') = None
               \<and> ConfigEnvironment st' = ConfigEnvironment ?st
             \<longrightarrow> fst (GetEnvironment w' st') = fst (GetEnvironment example_world ?st)"
    by blast+
  from s r k have "fst (GetEnvironment nokey_world ?st) = fst (GetEnvironment example_world ?st)"
    by blast
  moreover from g have "GetEnvironment example_world ?st
     = (Inl (New ''No environment: null''), ?st)"
    by (simp add: ConfigEnvironment_example)
  ultimately show ?thesis by (rule conjI[rotated])
qed

end
